theory Spec2Isabelle
  imports Main "HOL-Library.Sublist"
begin

section \<open>Python values\<close>

text \<open>
  A Python \<open>str\<close> is a sequence of code points. It is modelled as \<^typ>\<open>string\<close>, each
  \<^typ>\<open>char\<close> being one code point of the range 0..255 (Latin-1), which covers every
  literal of the program. On that range \<open>str.lower\<close> maps each code point to one code
  point: \<open>A\<close>..\<open>Z\<close> (65..90) and the capital letters 192..222 other than the
  multiplication sign 215 move up by 32, everything else stays. \<open>str.isspace\<close> holds of
  the code points 9..13, 28..32, 133 and 160, and \<open>str.strip\<close> removes them at both ends.
  The test \<open>x in s\<close> on strings is \<^const>\<open>sublist\<close>: \<open>x\<close> occurs in \<open>s\<close> as a
  contiguous run.
\<close>

definition lower_char :: "char \<Rightarrow> char" where
  "lower_char c =
     (let n = (of_char c :: nat) in
      if (65 \<le> n \<and> n \<le> 90) \<or> (192 \<le> n \<and> n \<le> 222 \<and> n \<noteq> 215)
      then char_of (n + 32) else c)"

definition lower :: "string \<Rightarrow> string" where
  "lower s = map lower_char s"

definition isspace :: "char \<Rightarrow> bool" where
  "isspace c \<longleftrightarrow> (of_char c :: nat) \<in> {9, 10, 11, 12, 13, 28, 29, 30, 31, 32, 133, 160}"

definition strip :: "string \<Rightarrow> string" where
  "strip s = rev (dropWhile isspace (rev (dropWhile isspace s)))"

text \<open>
  A \<open>dict\<close> is a map. \<open>d.get(k, default)\<close> never fails; the subscript \<open>d[k]\<close> raises
  \<open>KeyError\<close> on a missing key, which the model returns as a value. \<open>TypeError\<close> and
  \<open>AttributeError\<close> are what a subscript and a method call raise on an object of
  the wrong kind.
\<close>

datatype py_error = KeyError | TypeError | AttributeError

definition dict_get :: "('k \<rightharpoonup> 'v) \<Rightarrow> 'k \<Rightarrow> 'v \<Rightarrow> 'v" where
  "dict_get d k dflt = (case d k of Some v \<Rightarrow> v | None \<Rightarrow> dflt)"

definition dict_getitem :: "('k \<rightharpoonup> 'v) \<Rightarrow> 'k \<Rightarrow> py_error + 'v" where
  "dict_getitem d k = (case d k of Some v \<Rightarrow> Inr v | None \<Rightarrow> Inl KeyError)"


section \<open>hypervisor_agent.py\<close>

record CloudProvider =
  name :: string
  services :: "string list"
  iac_tools :: "string list"
  cli_tools :: "string list"
  sdks :: "string list"

record HypervisorAgent =
  cloud_providers :: "string \<rightharpoonup> CloudProvider"
  hypervisors :: "string \<rightharpoonup> (string \<rightharpoonup> string list)"

text \<open>\<open>HypervisorAgent._initialize_providers\<close>\<close>

definition initialize_providers :: "string \<rightharpoonup> CloudProvider" where
  "initialize_providers =
     [''aws'' \<mapsto> \<lparr>name = ''Amazon Web Services'',
         services = [''EC2'', ''VPC'', ''S3'', ''Lambda'', ''ECS'', ''EKS'', ''RDS'', ''CloudFormation''],
         iac_tools = [''CloudFormation'', ''CDK'', ''Terraform''],
         cli_tools = [''aws-cli'', ''eksctl'', ''kubectl''],
         sdks = [''boto3'', ''aws-sdk-js'', ''aws-sdk-go'', ''aws-sdk-java'']\<rparr>,
      ''azure'' \<mapsto> \<lparr>name = ''Microsoft Azure'',
         services = [''VM'', ''VNet'', ''Storage'', ''Functions'', ''ACI'', ''AKS'', ''SQL Database'', ''ARM''],
         iac_tools = [''ARM Templates'', ''Bicep'', ''Terraform''],
         cli_tools = [''az-cli'', ''kubectl''],
         sdks = [''azure-sdk-python'', ''azure-sdk-js'', ''azure-sdk-go'', ''azure-sdk-java'']\<rparr>,
      ''gcp'' \<mapsto> \<lparr>name = ''Google Cloud Platform'',
         services = [''Compute Engine'', ''VPC'', ''Cloud Storage'', ''Cloud Functions'', ''GKE'', ''Cloud SQL''],
         iac_tools = [''Deployment Manager'', ''Terraform''],
         cli_tools = [''gcloud'', ''kubectl''],
         sdks = [''google-cloud-python'', ''google-cloud-js'', ''google-cloud-go'', ''google-cloud-java'']\<rparr>]"

text \<open>\<open>HypervisorAgent._initialize_hypervisors\<close>\<close>

definition initialize_hypervisors :: "string \<rightharpoonup> (string \<rightharpoonup> string list)" where
  "initialize_hypervisors =
     [''vmware'' \<mapsto>
        [''products'' \<mapsto> [''vSphere'', ''ESXi'', ''vCenter'', ''NSX'', ''vSAN''],
         ''apis'' \<mapsto> [''vSphere API'', ''REST API'', ''PowerCLI''],
         ''tools'' \<mapsto> [''PowerCLI'', ''vSphere Client'', ''govc'']],
      ''hyper-v'' \<mapsto>
        [''products'' \<mapsto> [''Hyper-V'', ''System Center VMM'', ''Windows Admin Center''],
         ''apis'' \<mapsto> [''Hyper-V PowerShell'', ''WMI'', ''REST API''],
         ''tools'' \<mapsto> [''PowerShell'', ''Hyper-V Manager'', ''SCVMM'']],
      ''kvm'' \<mapsto>
        [''products'' \<mapsto> [''KVM'', ''QEMU'', ''libvirt''],
         ''apis'' \<mapsto> [''libvirt API'', ''QEMU Monitor''],
         ''tools'' \<mapsto> [''virsh'', ''virt-manager'', ''qemu-img'']]]"

text \<open>\<open>HypervisorAgent.__init__\<close>\<close>

definition HypervisorAgent_init :: HypervisorAgent where
  "HypervisorAgent_init =
     \<lparr>cloud_providers = initialize_providers, hypervisors = initialize_hypervisors\<rparr>"

text \<open>
  The dictionary \<open>suggestions\<close> that \<open>suggest_solution\<close> builds has five fixed keys.
  \<open>provider\<close> holds the argument as passed: \<open>None\<close> is Python's \<open>None\<close>.
\<close>

record suggestions =
  query :: string
  provider :: "string option"
  recommendations :: "string list"
  code_examples :: "string list"
  best_practices :: "string list"

text \<open>The three texts of the dictionary \<open>examples\<close> in \<open>_get_terraform_example\<close>, and the
  text \<open>_get_k8s_example\<close> returns.\<close>

definition terraform_example_aws :: string where
  \<open>terraform_example_aws =
     ''\<newline>'' @
     ''# AWS EC2 instance with Terraform\<newline>'' @
     ''resource "aws_instance" "web" {\<newline>'' @
     ''  ami           = "ami-0c55b159cbfafe1d0"\<newline>'' @
     ''  instance_type = "t2.micro"\<newline>'' @
     ''  \<newline>'' @
     ''  tags = {\<newline>'' @
     ''    Name = "WebServer"\<newline>'' @
     ''  }\<newline>'' @
     ''}\<newline>'' @
     ''            ''\<close>

definition terraform_example_azure :: string where
  \<open>terraform_example_azure =
     ''\<newline>'' @
     ''# Azure VM with Terraform\<newline>'' @
     ''resource "azurerm_linux_virtual_machine" "web" {\<newline>'' @
     ''  name                = "web-vm"\<newline>'' @
     ''  resource_group_name = azurerm_resource_group.main.name\<newline>'' @
     ''  location            = azurerm_resource_group.main.location\<newline>'' @
     ''  size                = "Standard_B1s"\<newline>'' @
     ''  admin_username      = "adminuser"\<newline>'' @
     ''}\<newline>'' @
     ''            ''\<close>

definition terraform_example_gcp :: string where
  \<open>terraform_example_gcp =
     ''\<newline>'' @
     ''# GCP Compute instance with Terraform\<newline>'' @
     ''resource "google_compute_instance" "web" {\<newline>'' @
     ''  name         = "web-instance"\<newline>'' @
     ''  machine_type = "e2-micro"\<newline>'' @
     ''  zone         = "us-central1-a"\<newline>'' @
     ''  \<newline>'' @
     ''  boot_disk {\<newline>'' @
     ''    initialize_params {\<newline>'' @
     ''      image = "debian-cloud/debian-11"\<newline>'' @
     ''    }\<newline>'' @
     ''  }\<newline>'' @
     ''}\<newline>'' @
     ''            ''\<close>

definition k8s_example :: string where
  \<open>k8s_example =
     ''\<newline>'' @
     ''apiVersion: apps/v1\<newline>'' @
     ''kind: Deployment\<newline>'' @
     ''metadata:\<newline>'' @
     ''  name: web-app\<newline>'' @
     ''spec:\<newline>'' @
     ''  replicas: 3\<newline>'' @
     ''  selector:\<newline>'' @
     ''    matchLabels:\<newline>'' @
     ''      app: web-app\<newline>'' @
     ''  template:\<newline>'' @
     ''    metadata:\<newline>'' @
     ''      labels:\<newline>'' @
     ''        app: web-app\<newline>'' @
     ''    spec:\<newline>'' @
     ''      containers:\<newline>'' @
     ''      - name: web\<newline>'' @
     ''        image: nginx:1.21\<newline>'' @
     ''        ports:\<newline>'' @
     ''        - containerPort: 80\<newline>'' @
     ''        ''\<close>

definition terraform_examples :: "string option \<rightharpoonup> string" where
  "terraform_examples =
     [Some ''aws'' \<mapsto> terraform_example_aws,
      Some ''azure'' \<mapsto> terraform_example_azure,
      Some ''gcp'' \<mapsto> terraform_example_gcp]"

text \<open>
  \<open>HypervisorAgent._get_terraform_example\<close>:
  \<^verbatim>\<open>return examples.get(provider, examples['aws'])\<close>.
  The default \<open>examples['aws']\<close> is evaluated before the call of \<open>get\<close>.
\<close>

definition get_terraform_example :: "HypervisorAgent \<Rightarrow> string option \<Rightarrow> py_error + string" where
  "get_terraform_example self prov =
     (case dict_getitem terraform_examples (Some ''aws'') of
        Inl e \<Rightarrow> Inl e
      | Inr dflt \<Rightarrow> Inr (dict_get terraform_examples prov dflt))"

text \<open>\<open>HypervisorAgent._get_k8s_example\<close>\<close>

definition get_k8s_example :: "HypervisorAgent \<Rightarrow> string option \<Rightarrow> string" where
  "get_k8s_example self prov = k8s_example"

text \<open>
  \<open>HypervisorAgent.suggest_solution\<close>. The two \<open>if\<close> statements run one after the
  other on the same dictionary; an exception of the first ends the call.
\<close>

definition suggest_solution ::
  "HypervisorAgent \<Rightarrow> string \<Rightarrow> string option \<Rightarrow> py_error + suggestions" where
  "suggest_solution self q prov =
     (let s0 = \<lparr>query = q, provider = prov, recommendations = [], code_examples = [],
                 best_practices = []\<rparr>
      in case (if sublist ''terraform'' (lower q)
               then (case get_terraform_example self prov of
                       Inl e \<Rightarrow> Inl e
                     | Inr ex \<Rightarrow>
                         Inr (s0\<lparr>recommendations :=
                                   recommendations s0 @ [''Use Terraform for infrastructure as code''],
                                 code_examples := code_examples s0 @ [ex]\<rparr>))
               else Inr s0) of
           Inl e \<Rightarrow> Inl e
         | Inr s1 \<Rightarrow>
             Inr (if sublist ''kubernetes'' (lower q)
                  then s1\<lparr>recommendations :=
                            recommendations s1 @ [''Consider managed Kubernetes services''],
                          code_examples := code_examples s1 @ [get_k8s_example self prov]\<rparr>
                  else s1))"


section \<open>aws_helper.py\<close>

record AWSHelper =
  services :: "string \<rightharpoonup> string list"

text \<open>\<open>AWSHelper.__init__\<close>\<close>

definition AWSHelper_init :: AWSHelper where
  "AWSHelper_init =
     \<lparr>services =
        [''compute'' \<mapsto> [''EC2'', ''Lambda'', ''ECS'', ''EKS'', ''Batch''],
         ''storage'' \<mapsto> [''S3'', ''EBS'', ''EFS'', ''FSx''],
         ''database'' \<mapsto> [''RDS'', ''DynamoDB'', ''ElastiCache'', ''DocumentDB''],
         ''networking'' \<mapsto> [''VPC'', ''CloudFront'', ''Route53'', ''ALB'', ''NLB''],
         ''security'' \<mapsto> [''IAM'', ''Cognito'', ''Secrets Manager'', ''KMS''],
         ''monitoring'' \<mapsto> [''CloudWatch'', ''X-Ray'', ''CloudTrail'']]\<rparr>"

text \<open>The dictionary \<open>recommendations\<close> of \<open>AWSHelper.get_service_recommendations\<close>:
  its entries in the order of the source (the keys are distinct), and the dictionary as
  a map.\<close>

definition aws_recommendations_items :: "(string \<times> string list) list" where
  "aws_recommendations_items =
     [(''web_application'',
        [''Use EC2 or ECS for compute'',
         ''Use ALB for load balancing'',
         ''Use RDS for relational database'',
         ''Use S3 for static assets'',
         ''Use CloudFront for CDN'']),
      (''api_backend'',
        [''Use Lambda for serverless functions'',
         ''Use API Gateway for REST APIs'',
         ''Use DynamoDB for NoSQL database'',
         ''Use Cognito for authentication'',
         ''Use CloudWatch for monitoring'']),
      (''data_processing'',
        [''Use EMR for big data processing'',
         ''Use Glue for ETL jobs'',
         ''Use Kinesis for streaming data'',
         ''Use S3 for data lake storage'',
         ''Use Athena for analytics'']),
      (''machine_learning'',
        [''Use SageMaker for ML workflows'',
         ''Use S3 for training data storage'',
         ''Use Lambda for inference endpoints'',
         ''Use Batch for training jobs'',
         ''Use CloudWatch for model monitoring''])]"

definition aws_recommendations :: "string \<rightharpoonup> string list" where
  "aws_recommendations = map_of aws_recommendations_items"

text \<open>The list that is the second argument of \<open>recommendations.get\<close>.\<close>

definition aws_fallback_recommendations :: "string list" where
  "aws_fallback_recommendations =
     [''Define your requirements more specifically'',
      ''Consider AWS Well-Architected Framework principles'',
      ''Start with basic services and expand as needed'']"

text \<open>\<open>AWSHelper.get_service_recommendations\<close>\<close>

definition aws_get_service_recommendations :: "AWSHelper \<Rightarrow> string \<Rightarrow> string list" where
  "aws_get_service_recommendations self use_case =
     dict_get aws_recommendations use_case aws_fallback_recommendations"

text \<open>The texts of the dictionary \<open>examples\<close> of \<open>AWSHelper.generate_boto3_example\<close>.\<close>

definition boto3_ec2_list_instances :: string where
  \<open>boto3_ec2_list_instances =
     ''\<newline>'' @
     ''import boto3\<newline>'' @
     ''\<newline>'' @
     ''ec2 = boto3.client(\'ec2\')\<newline>'' @
     ''response = ec2.describe_instances()\<newline>'' @
     ''\<newline>'' @
     ''for reservation in response[\'Reservations\']:\<newline>'' @
     ''    for instance in reservation[\'Instances\']:\<newline>'' @
     ''        print(f"Instance ID: {instance[\'InstanceId\']}")\<newline>'' @
     ''        print(f"State: {instance[\'State\'][\'Name\']}")\<newline>'' @
     ''        print(f"Type: {instance[\'InstanceType\']}")\<newline>'' @
     ''        print("---")\<newline>'' @
     ''                ''\<close>

definition boto3_ec2_create_instance :: string where
  \<open>boto3_ec2_create_instance =
     ''\<newline>'' @
     ''import boto3\<newline>'' @
     ''\<newline>'' @
     ''ec2 = boto3.client(\'ec2\')\<newline>'' @
     ''\<newline>'' @
     ''response = ec2.run_instances(\<newline>'' @
     ''    ImageId=\'ami-0c55b159cbfafe1d0\',\<newline>'' @
     ''    MinCount=1,\<newline>'' @
     ''    MaxCount=1,\<newline>'' @
     ''    InstanceType=\'t2.micro\',\<newline>'' @
     ''    KeyName=\'my-key-pair\',\<newline>'' @
     ''    SecurityGroupIds=[\'sg-12345678\'],\<newline>'' @
     ''    SubnetId=\'subnet-12345678\',\<newline>'' @
     ''    TagSpecifications=[\<newline>'' @
     ''        {\<newline>'' @
     ''            \'ResourceType\': \'instance\',\<newline>'' @
     ''            \'Tags\': [\<newline>'' @
     ''                {\'Key\': \'Name\', \'Value\': \'MyInstance\'}\<newline>'' @
     ''            ]\<newline>'' @
     ''        }\<newline>'' @
     ''    ]\<newline>'' @
     '')\<newline>'' @
     ''\<newline>'' @
     ''print(f"Instance created: {response[\'Instances\'][0][\'InstanceId\']}")\<newline>'' @
     ''                ''\<close>

definition boto3_s3_upload_file :: string where
  \<open>boto3_s3_upload_file =
     ''\<newline>'' @
     ''import boto3\<newline>'' @
     ''\<newline>'' @
     ''s3 = boto3.client(\'s3\')\<newline>'' @
     ''\<newline>'' @
     ''# Upload a file\<newline>'' @
     ''s3.upload_file(\'local_file.txt\', \'my-bucket\', \'remote_file.txt\')\<newline>'' @
     ''\<newline>'' @
     ''# Upload with metadata\<newline>'' @
     ''s3.upload_file(\<newline>'' @
     ''    \'local_file.txt\', \<newline>'' @
     ''    \'my-bucket\', \<newline>'' @
     ''    \'remote_file.txt\',\<newline>'' @
     ''    ExtraArgs={\'Metadata\': {\'uploaded-by\': \'python-script\'}}\<newline>'' @
     '')\<newline>'' @
     ''                ''\<close>

definition boto3_s3_list_objects :: string where
  \<open>boto3_s3_list_objects =
     ''\<newline>'' @
     ''import boto3\<newline>'' @
     ''\<newline>'' @
     ''s3 = boto3.client(\'s3\')\<newline>'' @
     ''\<newline>'' @
     ''response = s3.list_objects_v2(Bucket=\'my-bucket\')\<newline>'' @
     ''\<newline>'' @
     ''for obj in response.get(\'Contents\', []):\<newline>'' @
     ''    print(f"Key: {obj[\'Key\']}")\<newline>'' @
     ''    print(f"Size: {obj[\'Size\']} bytes")\<newline>'' @
     ''    print(f"Modified: {obj[\'LastModified\']}")\<newline>'' @
     ''    print("---")\<newline>'' @
     ''                ''\<close>

definition boto3_examples :: "string \<rightharpoonup> (string \<rightharpoonup> string)" where
  "boto3_examples =
     [''ec2'' \<mapsto>
        [''list_instances'' \<mapsto> boto3_ec2_list_instances,
         ''create_instance'' \<mapsto> boto3_ec2_create_instance],
      ''s3'' \<mapsto>
        [''upload_file'' \<mapsto> boto3_s3_upload_file,
         ''list_objects'' \<mapsto> boto3_s3_list_objects]]"

text \<open>
  \<open>AWSHelper.generate_boto3_example\<close>:
  \<^verbatim>\<open>return examples.get(service, {}).get(operation, f"# Example for {service} {operation} not available")\<close>
\<close>

definition generate_boto3_example :: "AWSHelper \<Rightarrow> string \<Rightarrow> string \<Rightarrow> string" where
  "generate_boto3_example self service operation =
     dict_get (dict_get boto3_examples service Map.empty) operation
       (''# Example for '' @ service @ '' '' @ operation @ '' not available'')"


section \<open>azure_helper.py and gcp_helper.py\<close>

text \<open>
  These two modules are not modelled. As given, neither is valid Python: the f-string of
  \<open>AzureHelper.generate_terraform_vm\<close> (\<open>azure_helper.py\<close>, from line 24) and the
  f-string of \<open>GCPHelper.generate_terraform_compute\<close> (\<open>gcp_helper.py\<close>, from line
  24) hold the braces of their Terraform text unescaped, where \<open>aws_helper.py\<close> formats
  a plain string with doubled braces. Python compiles a module as a whole before it runs
  any of it, so \<open>import azure_helper\<close> and \<open>import gcp_helper\<close> raise
  \<open>SyntaxError\<close>, the classes \<open>AzureHelper\<close> and \<open>GCPHelper\<close> are never defined,
  and no call of their methods returns. \<open>app.py\<close> and \<open>test_agent.py\<close> import both
  modules and fail with them.
\<close>


section \<open>app.py and simple\_app.py\<close>

text \<open>
  The handler \<open>query_agent\<close> of the route \<open>/query\<close> has the same text in both
  modules (\<open>app.py\<close> imports the two helper modules that Python rejects;
  \<open>simple_app.py\<close> imports \<open>hypervisor_agent\<close> alone, and runs). The route accepts
  \<open>GET\<close> and \<open>POST\<close>; \<open>request.form\<close> is a dictionary of strings. The handler reads the module's global \<open>agent\<close>, its first argument here.
  A response is the template rendered or the dictionary given to \<open>jsonify\<close>: the error
  message alone, the error of a caught exception, or the four fields of a success.
\<close>

datatype verb = GET | POST

record request =
  request_method :: verb
  form :: "string \<rightharpoonup> string"

datatype response =
    Render_template string
  | Json_error string
  | Json_exception py_error
  | Json_success string string "string list" "string list"

definition query_agent :: "HypervisorAgent \<Rightarrow> request \<Rightarrow> response" where
  "query_agent ag req =
     (if request_method req = GET then Render_template ''query.html''
      else
        let q = strip (dict_get (form req) ''query'' '''');
            prov = strip (dict_get (form req) ''provider'' '''')
        in if q = '''' then Json_error ''Please enter a query''
           else
             (case suggest_solution ag q (if prov \<noteq> ''auto'' then Some prov else None) of
                Inl e \<Rightarrow> Json_exception e
              | Inr result \<Rightarrow>
                  Json_success (query result)
                    (case provider result of
                       None \<Rightarrow> ''General''
                     | Some p \<Rightarrow> if p = '''' then ''General'' else p)
                    (recommendations result) (code_examples result)))"


section \<open>Objects and references\<close>

text \<open>
  For the claims about repeated calls the same methods are modelled once more, statement
  by statement, on a store of objects. A value is a string, \<open>None\<close> or a reference; a
  list and a dictionary are objects of the store, reached by reference and changed in
  place; the entries of a dictionary are kept in the order of insertion (the
  dictionaries written in the program have distinct keys). The store is the list of the
  objects allocated so far, the address of an object its position: a new object goes to
  the end. An address outside the store does not occur in Python; the model answers it
  like an object of the wrong kind.
\<close>

type_synonym addr = nat

datatype pyval = Str string | NoneVal | Ref addr

datatype pyobj =
    ListObj "pyval list"
  | DictObj "(pyval \<times> pyval) list"
  | Instance "(string \<times> pyval) list"

type_synonym heap = "pyobj list"

definition alloc :: "pyobj \<Rightarrow> heap \<Rightarrow> addr \<times> heap" where
  "alloc ob h = (length h, h @ [ob])"


definition obj_at :: "heap \<Rightarrow> pyval \<Rightarrow> pyobj option" where
  "obj_at h v = (case v of Ref a \<Rightarrow> if a < length h then Some (h ! a) else None | _ \<Rightarrow> None)"

text \<open>Sequencing: an exception ends the statements that follow.\<close>

definition py_bind :: "py_error + 'a \<Rightarrow> ('a \<Rightarrow> py_error + 'b) \<Rightarrow> py_error + 'b" where
  "py_bind m f = (case m of Inl e \<Rightarrow> Inl e | Inr x \<Rightarrow> f x)"

text \<open>\<^verbatim>\<open>l.append(v)\<close>: the list object at the address of \<open>l\<close> is replaced by the longer
  one; every reference to it sees the change.\<close>

definition list_append :: "pyval \<Rightarrow> pyval \<Rightarrow> heap \<Rightarrow> py_error + heap" where
  "list_append l v h =
     (case (l, obj_at h l) of
        (Ref a, Some (ListObj xs)) \<Rightarrow> Inr (h[a := ListObj (xs @ [v])])
      | _ \<Rightarrow> Inl AttributeError)"

text \<open>\<^verbatim>\<open>d[k]\<close> and \<^verbatim>\<open>d.get(k, default)\<close> on a dictionary object.\<close>

definition subscript :: "pyval \<Rightarrow> pyval \<Rightarrow> heap \<Rightarrow> py_error + pyval" where
  "subscript d k h =
     (case obj_at h d of
        Some (DictObj kvs) \<Rightarrow> (case map_of kvs k of Some v \<Rightarrow> Inr v | None \<Rightarrow> Inl KeyError)
      | _ \<Rightarrow> Inl TypeError)"

definition get_method :: "pyval \<Rightarrow> pyval \<Rightarrow> pyval \<Rightarrow> heap \<Rightarrow> py_error + pyval" where
  "get_method d k dflt h =
     (case obj_at h d of
        Some (DictObj kvs) \<Rightarrow> (case map_of kvs k of Some v \<Rightarrow> Inr v | None \<Rightarrow> Inr dflt)
      | _ \<Rightarrow> Inl AttributeError)"

text \<open>The argument \<open>provider\<close> as a value: a string or \<open>None\<close>.\<close>

definition provider_val :: "string option \<Rightarrow> pyval" where
  "provider_val prov = (case prov of None \<Rightarrow> NoneVal | Some p \<Rightarrow> Str p)"

text \<open>
  \<open>HypervisorAgent._get_terraform_example\<close> on the store: the dictionary \<open>examples\<close> is
  a new object of each call, \<open>examples['aws']\<close> is evaluated before the call of \<open>get\<close>.
\<close>

definition get_terraform_example_h ::
  "pyval \<Rightarrow> pyval \<Rightarrow> heap \<Rightarrow> py_error + pyval \<times> heap" where
  "get_terraform_example_h self prov h =
     (case alloc (DictObj [(Str ''aws'', Str terraform_example_aws),
                           (Str ''azure'', Str terraform_example_azure),
                           (Str ''gcp'', Str terraform_example_gcp)]) h of
        (examples, h1) \<Rightarrow>
          py_bind (subscript (Ref examples) (Str ''aws'') h1) (\<lambda>dflt.
          py_bind (get_method (Ref examples) prov dflt h1) (\<lambda>v.
          Inr (v, h1))))"

text \<open>\<open>HypervisorAgent._get_k8s_example\<close> on the store: it returns a string and allocates
  nothing.\<close>

definition get_k8s_example_h :: "pyval \<Rightarrow> pyval \<Rightarrow> heap \<Rightarrow> py_error + pyval \<times> heap" where
  "get_k8s_example_h self prov h = Inr (Str k8s_example, h)"

text \<open>
  \<open>HypervisorAgent.suggest_solution\<close> on the store. The dictionary display allocates the
  three empty lists, then the dictionary. In
  \<^verbatim>\<open>suggestions['code_examples'].append(self._get_terraform_example(provider))\<close>
  the subscript is evaluated before the argument of \<open>append\<close>. The call returns the
  reference to the dictionary.
\<close>

definition suggest_solution_h ::
  "pyval \<Rightarrow> string \<Rightarrow> pyval \<Rightarrow> heap \<Rightarrow> py_error + pyval \<times> heap" where
  "suggest_solution_h self q prov h =
     (case alloc (ListObj []) h of (r, h1) \<Rightarrow>
      case alloc (ListObj []) h1 of (c, h2) \<Rightarrow>
      case alloc (ListObj []) h2 of (b, h3) \<Rightarrow>
      case alloc (DictObj [(Str ''query'', Str q),
                           (Str ''provider'', prov),
                           (Str ''recommendations'', Ref r),
                           (Str ''code_examples'', Ref c),
                           (Str ''best_practices'', Ref b)]) h3 of (s, h4) \<Rightarrow>
        py_bind
          (if sublist ''terraform'' (lower q)
           then
             py_bind (subscript (Ref s) (Str ''recommendations'') h4) (\<lambda>l.
             py_bind (list_append l (Str ''Use Terraform for infrastructure as code'') h4) (\<lambda>h5.
             py_bind (subscript (Ref s) (Str ''code_examples'') h5) (\<lambda>l'.
             py_bind (get_terraform_example_h self prov h5) (\<lambda>(ex, h6).
             list_append l' ex h6))))
           else Inr h4)
          (\<lambda>h7.
        py_bind
          (if sublist ''kubernetes'' (lower q)
           then
             py_bind (subscript (Ref s) (Str ''recommendations'') h7) (\<lambda>l.
             py_bind (list_append l (Str ''Consider managed Kubernetes services'') h7) (\<lambda>h8.
             py_bind (subscript (Ref s) (Str ''code_examples'') h8) (\<lambda>l'.
             py_bind (get_k8s_example_h self prov h8) (\<lambda>(ex, h9).
             list_append l' ex h9))))
           else Inr h7)
          (\<lambda>h10. Inr (Ref s, h10))))"









section \<open>The specification's wording\<close>

text \<open>
  The specification describes the classifier by a fixed, ordered table of trigger
  keywords, each with its recommendation and its snippet: the snippet of \<open>terraform\<close> is
  the Terraform example of the given provider, that of \<open>aws\<close> when there is none for it;
  the snippet of \<open>kubernetes\<close> is the one Kubernetes example. The keywords present in the
  lower-cased query are selected in the order of the table.
\<close>

definition keyword_table :: "string option \<Rightarrow> (string \<times> string \<times> string) list" where
  "keyword_table prov =
     [(''terraform'', ''Use Terraform for infrastructure as code'',
         dict_get terraform_examples prov terraform_example_aws),
      (''kubernetes'', ''Consider managed Kubernetes services'', k8s_example)]"

definition matched :: "string \<Rightarrow> string option \<Rightarrow> (string \<times> string \<times> string) list" where
  "matched q prov = filter (\<lambda>(k, r, s). sublist k (lower q)) (keyword_table prov)"

text \<open>A service and an operation are in a snippet catalog when the catalog has a text for
  the operation under the service.\<close>

definition in_catalog :: "(string \<rightharpoonup> (string \<rightharpoonup> string)) \<Rightarrow> string \<Rightarrow> string \<Rightarrow> bool" where
  "in_catalog examples s operation =
     (case examples s of None \<Rightarrow> False | Some m \<Rightarrow> m operation \<noteq> None)"


section \<open>Auxiliary facts\<close>

lemma lower_char_simps:
  "lower_char c =
     (if (65 \<le> (of_char c :: nat) \<and> (of_char c :: nat) \<le> 90)
         \<or> (192 \<le> (of_char c :: nat) \<and> (of_char c :: nat) \<le> 222 \<and> (of_char c :: nat) \<noteq> 215)
      then char_of ((of_char c :: nat) + 32) else c)"
  by (simp add: lower_char_def Let_def)

lemma terraform_examples_aws: "terraform_examples (Some ''aws'') = Some terraform_example_aws"
  by (simp add: terraform_examples_def)

lemma get_terraform_example_eq:
  "get_terraform_example self prov = Inr (dict_get terraform_examples prov terraform_example_aws)"
  by (simp add: get_terraform_example_def dict_getitem_def terraform_examples_aws)

lemma suggest_solution_eq:
  "suggest_solution self q prov =
     Inr \<lparr>query = q, provider = prov,
          recommendations =
            (if sublist ''terraform'' (lower q)
             then [''Use Terraform for infrastructure as code''] else []) @
            (if sublist ''kubernetes'' (lower q)
             then [''Consider managed Kubernetes services''] else []),
          code_examples =
            (if sublist ''terraform'' (lower q)
             then [dict_get terraform_examples prov terraform_example_aws] else []) @
            (if sublist ''kubernetes'' (lower q) then [k8s_example] else []),
          best_practices = []\<rparr>"
  by (simp add: suggest_solution_def get_terraform_example_eq get_k8s_example_def)

lemma dropWhile_all_iff:
  "(\<forall>x \<in> set (dropWhile P xs). P x) \<longleftrightarrow> (\<forall>x \<in> set xs. P x)"
proof
  assume a: "\<forall>x \<in> set (dropWhile P xs). P x"
  have "dropWhile P xs = []"
  proof (rule ccontr)
    assume n: "dropWhile P xs \<noteq> []"
    then have "\<not> P (hd (dropWhile P xs))" by (rule hd_dropWhile)
    moreover from n have "hd (dropWhile P xs) \<in> set (dropWhile P xs)" by simp
    ultimately show False using a by blast
  qed
  then show "\<forall>x \<in> set xs. P x" by simp
next
  assume "\<forall>x \<in> set xs. P x"
  then show "\<forall>x \<in> set (dropWhile P xs). P x" by (blast dest: set_dropWhileD)
qed

lemma strip_empty_iff: "strip s = [] \<longleftrightarrow> (\<forall>c \<in> set s. isspace c)"
  by (simp add: strip_def dropWhile_all_iff)

text \<open>The keys of the snippet catalog of \<open>generate_boto3_example\<close>.\<close>

lemma in_catalog_boto3:
  "in_catalog boto3_examples s operation \<longleftrightarrow>
     (s, operation) \<in> {(''ec2'', ''list_instances''), (''ec2'', ''create_instance''),
                        (''s3'', ''upload_file''), (''s3'', ''list_objects'')}"
  by (simp add: in_catalog_def boto3_examples_def)

lemma not_in_catalog_get:
  "\<not> in_catalog examples s operation \<Longrightarrow>
   dict_get (dict_get examples s Map.empty) operation dflt = dflt"
  by (simp add: in_catalog_def dict_get_def split: option.splits)


text \<open>
  \<open>AWSHelper.get_service_recommendations\<close>, the one recommendation lookup that runs:
  its result is never empty, and for a use case that is not a key of its dictionary it
  is the fallback of three items.
\<close>

lemma aws_recommendations_nonempty: "aws_get_service_recommendations self u \<noteq> []"
  by (simp add: aws_get_service_recommendations_def dict_get_def aws_recommendations_def
      aws_recommendations_items_def aws_fallback_recommendations_def)

lemma aws_recommendations_fallback:
  "u \<notin> {''web_application'', ''api_backend'', ''data_processing'', ''machine_learning''} \<Longrightarrow>
   aws_get_service_recommendations self u =
     [''Define your requirements more specifically'',
      ''Consider AWS Well-Architected Framework principles'',
      ''Start with basic services and expand as needed'']"
  by (simp add: aws_get_service_recommendations_def dict_get_def aws_recommendations_def
      aws_recommendations_items_def aws_fallback_recommendations_def)

text \<open>A query of whitespace holds no letter, so it holds no keyword.\<close>

lemma lower_blank: "lower '''' = '''' \<and> lower ''   '' = ''   ''"
  by (simp add: lower_def lower_char_simps)

lemma lower_char_isspace: "isspace c \<Longrightarrow> lower_char c = c"
  by (auto simp: isspace_def lower_char_simps)

lemma blank_no_letter:
  assumes b: "\<forall>c \<in> set q. isspace c" and x: "\<not> isspace x"
  shows "\<not> sublist (x # xs) (lower q)"
proof
  assume "sublist (x # xs) (lower q)"
  then have "set (x # xs) \<subseteq> set (lower q)" by (rule set_mono_sublist)
  then have "x \<in> set (lower q)" by simp
  then obtain c where c: "c \<in> set q" "x = lower_char c"
    by (auto simp: lower_def)
  from b c(1) have "isspace c" by blast
  with c(2) x show False by (simp add: lower_char_isspace)
qed







lemma terraform_lookup:
  "(case map_of [(Str ''aws'', Str terraform_example_aws),
                 (Str ''azure'', Str terraform_example_azure),
                 (Str ''gcp'', Str terraform_example_gcp)] (provider_val prov) of
      Some v \<Rightarrow> v | None \<Rightarrow> Str terraform_example_aws) =
   Str (dict_get terraform_examples prov terraform_example_aws)"
  by (cases prov) (simp_all add: provider_val_def terraform_examples_def dict_get_def)

text \<open>One call of each method on a store \<open>h\<close>: the call returns, the store it leaves
  extends \<open>h\<close>, and the result read back is the value of the first model.\<close>

lemma get_terraform_example_h_run:
  "get_terraform_example_h self (provider_val prov) h =
     Inr (Str (dict_get terraform_examples prov terraform_example_aws),
          h @ [DictObj [(Str ''aws'', Str terraform_example_aws),
                        (Str ''azure'', Str terraform_example_azure),
                        (Str ''gcp'', Str terraform_example_gcp)]])"
proof -
  have "get_terraform_example_h self (provider_val prov) h =
     Inr (case map_of [(Str ''aws'', Str terraform_example_aws),
                 (Str ''azure'', Str terraform_example_azure),
                 (Str ''gcp'', Str terraform_example_gcp)] (provider_val prov) of
      Some v \<Rightarrow> v | None \<Rightarrow> Str terraform_example_aws,
          h @ [DictObj [(Str ''aws'', Str terraform_example_aws),
                        (Str ''azure'', Str terraform_example_azure),
                        (Str ''gcp'', Str terraform_example_gcp)]])"
    by (simp add: get_terraform_example_h_def alloc_def py_bind_def subscript_def
        get_method_def obj_at_def split: option.splits)
  then show ?thesis by (simp only: terraform_lookup)
qed




text \<open>
  A call at work: on a store that holds one object, the agent, the query \<open>terraform\<close>
  with no provider allocates the three lists and the dictionary at the addresses 1 to 4
  and the dictionary \<open>examples\<close> at 5, and the two calls of \<open>append\<close> change the lists
  at 1 and 2 in place.
\<close>

lemma suggest_solution_h_example:
  "suggest_solution_h (Ref 0) ''terraform'' NoneVal [Instance []] =
     Inr (Ref 4,
          [Instance [],
           ListObj [Str ''Use Terraform for infrastructure as code''],
           ListObj [Str terraform_example_aws],
           ListObj [],
           DictObj [(Str ''query'', Str ''terraform''),
                    (Str ''provider'', NoneVal),
                    (Str ''recommendations'', Ref 1),
                    (Str ''code_examples'', Ref 2),
                    (Str ''best_practices'', Ref 3)],
           DictObj [(Str ''aws'', Str terraform_example_aws),
                    (Str ''azure'', Str terraform_example_azure),
                    (Str ''gcp'', Str terraform_example_gcp)]])"
proof -
  have l: "lower ''terraform'' = ''terraform''"
    by (simp add: lower_def lower_char_simps char_of_def bit_Suc_0_iff)
  have t: "sublist ''terraform'' ''terraform''" by simp
  have k: "\<not> sublist ''kubernetes'' ''terraform''"
    by (simp add: sublist_Cons_right)
  have d: "dict_get terraform_examples None terraform_example_aws = terraform_example_aws"
    by (simp add: dict_get_def terraform_examples_def)
  have "suggest_solution_h (Ref 0) ''terraform'' (provider_val None) [Instance []] =
     Inr (Ref 4,
          [Instance [],
           ListObj [Str ''Use Terraform for infrastructure as code''],
           ListObj [Str terraform_example_aws],
           ListObj [],
           DictObj [(Str ''query'', Str ''terraform''),
                    (Str ''provider'', provider_val None),
                    (Str ''recommendations'', Ref 1),
                    (Str ''code_examples'', Ref 2),
                    (Str ''best_practices'', Ref 3)],
           DictObj [(Str ''aws'', Str terraform_example_aws),
                    (Str ''azure'', Str terraform_example_azure),
                    (Str ''gcp'', Str terraform_example_gcp)]])"
    by (simp add: suggest_solution_h_def alloc_def py_bind_def subscript_def list_append_def
        obj_at_def get_terraform_example_h_run get_k8s_example_h_def l t k d)
  then show ?thesis by (simp add: provider_val_def)
qed

section \<open>The snippet lookup\<close>

text \<open>
  C1 (as the code has it). For a service and an operation that are not in the snippet
  catalog of \<open>aws\<close>, the lookup \<open>generate_boto3_example\<close> returns the text
  \<open># Example for {service} {operation} not available\<close>, with the two arguments in
  place of \<open>{service}\<close> and \<open>{operation}\<close>: the placeholder starts with the comment
  sign \<open>#\<close> and a blank.
\<close>

theorem snippet_lookup_placeholder:
  "\<not> in_catalog boto3_examples s operation \<Longrightarrow>
   generate_boto3_example aws s operation =
     ''# Example for '' @ s @ '' '' @ operation @ '' not available''"
  by (simp add: generate_boto3_example_def not_in_catalog_get)

theorem snippet_lookup_placeholder_witness:
  "\<not> in_catalog boto3_examples ''ec2'' ''reboot'' \<and>
   generate_boto3_example AWSHelper_init ''ec2'' ''reboot'' =
     ''# Example for ec2 reboot not available''"
proof -
  have a: "\<not> in_catalog boto3_examples ''ec2'' ''reboot''"
    by (simp add: in_catalog_boto3)
  show ?thesis
    using a snippet_lookup_placeholder [OF a, of AWSHelper_init]
    by simp
qed

text \<open>
  C1 as the specification words it fails: the text returned for the service \<open>ec2\<close> and
  the operation \<open>reboot\<close>, which the catalog does not have, is not
  \<open>Example for ec2 reboot not available\<close>.
\<close>

theorem snippet_lookup_placeholder_counterexample:
  "generate_boto3_example AWSHelper_init ''ec2'' ''reboot'' \<noteq>
     ''Example for ec2 reboot not available''"
  by (simp add: generate_boto3_example_def not_in_catalog_get in_catalog_boto3)


section \<open>The classifier\<close>

text \<open>
  C2. \<open>suggest_solution\<close> lower-cases the query and tests the keyword \<open>terraform\<close>, then
  the keyword \<open>kubernetes\<close>, each as a substring of the lower-cased query. Its result
  holds, for the keywords that are present and in the order of the table (\<open>terraform\<close>
  before \<open>kubernetes\<close>), one recommendation and one snippet each; the two tests do not
  depend on each other, so none, one or both of the keywords may match.
\<close>

theorem suggest_solution_keyword_table:
  "suggest_solution self q prov =
     Inr \<lparr>query = q, provider = prov,
          recommendations = map (\<lambda>(k, r, s). r) (matched q prov),
          code_examples = map (\<lambda>(k, r, s). s) (matched q prov),
          best_practices = []\<rparr>"
  by (simp add: suggest_solution_eq matched_def keyword_table_def)

theorem suggest_solution_keyword_table_witness:
  "matched ''Plain question'' (Some ''gcp'') = [] \<and>
   matched ''Deploy with TerraForm'' (Some ''gcp'') =
     [(''terraform'', ''Use Terraform for infrastructure as code'', terraform_example_gcp)] \<and>
   matched ''KUBERNETES cluster'' (Some ''gcp'') =
     [(''kubernetes'', ''Consider managed Kubernetes services'', k8s_example)] \<and>
   suggest_solution HypervisorAgent_init ''Kubernetes, then Terraform'' (Some ''gcp'') =
     Inr \<lparr>query = ''Kubernetes, then Terraform'', provider = Some ''gcp'',
          recommendations =
            [''Use Terraform for infrastructure as code'',
             ''Consider managed Kubernetes services''],
          code_examples = [terraform_example_gcp, k8s_example],
          best_practices = []\<rparr>"
proof -
  have gcp: "dict_get terraform_examples (Some ''gcp'') terraform_example_aws = terraform_example_gcp"
    by (simp add: dict_get_def terraform_examples_def)
  have m0: "matched ''Plain question'' (Some ''gcp'') = []"
    by (simp add: matched_def keyword_table_def lower_def lower_char_simps char_of_def
        bit_Suc_0_iff sublist_Cons_right)
  have m1: "matched ''Deploy with TerraForm'' (Some ''gcp'') =
     [(''terraform'', ''Use Terraform for infrastructure as code'', terraform_example_gcp)]"
    by (simp add: matched_def keyword_table_def lower_def lower_char_simps char_of_def
        bit_Suc_0_iff sublist_Cons_right gcp)
  have m2: "matched ''KUBERNETES cluster'' (Some ''gcp'') =
     [(''kubernetes'', ''Consider managed Kubernetes services'', k8s_example)]"
    by (simp add: matched_def keyword_table_def lower_def lower_char_simps char_of_def
        bit_Suc_0_iff sublist_Cons_right)
  have m3: "matched ''Kubernetes, then Terraform'' (Some ''gcp'') =
     [(''terraform'', ''Use Terraform for infrastructure as code'', terraform_example_gcp),
      (''kubernetes'', ''Consider managed Kubernetes services'', k8s_example)]"
    by (simp add: matched_def keyword_table_def lower_def lower_char_simps char_of_def
        bit_Suc_0_iff sublist_Cons_right gcp)
  show ?thesis
    using suggest_solution_keyword_table
        [of HypervisorAgent_init "''Kubernetes, then Terraform''" "Some ''gcp''"]
    by (simp add: m0 m1 m2 m3)
qed

text \<open>
  C5 (as the code has it). For every query and every provider argument, the result of
  \<open>suggest_solution\<close> holds the query as given and the provider argument as given:
  \<open>None\<close> when the provider is absent.
\<close>

theorem suggest_solution_echo:
  "\<exists>r. suggest_solution self q prov = Inr r \<and> query r = q \<and> provider r = prov"
  by (simp add: suggest_solution_eq)

text \<open>
  C5 as the specification words it fails: for the query \<open>terraform\<close> and no provider
  the call succeeds and the provider of the result is \<open>None\<close>, not the default \<open>aws\<close>.
\<close>

theorem suggest_solution_echo_counterexample:
  "\<not> isl (suggest_solution HypervisorAgent_init ''terraform'' None) \<and>
   provider (projr (suggest_solution HypervisorAgent_init ''terraform'' None)) = None \<and>
   provider (projr (suggest_solution HypervisorAgent_init ''terraform'' None)) \<noteq> Some ''aws''"
  by (simp add: suggest_solution_eq)

text \<open>
  C6. For every query whose lower-cased text holds both keywords, and no provider, the
  result holds the recommendation and the snippet of \<open>terraform\<close> and then those of
  \<open>kubernetes\<close>, in this order wherever the keywords stand in the query; the Terraform
  snippet is the one of the provider \<open>aws\<close>. The query \<open>terraform and kubernetes\<close>
  of the specification is such a query.
\<close>

theorem suggest_solution_both_keywords:
  "sublist ''terraform'' (lower q) \<Longrightarrow> sublist ''kubernetes'' (lower q) \<Longrightarrow>
   suggest_solution self q None =
     Inr \<lparr>query = q, provider = None,
          recommendations =
            [''Use Terraform for infrastructure as code'',
             ''Consider managed Kubernetes services''],
          code_examples = [terraform_example_aws, k8s_example],
          best_practices = []\<rparr> \<and>
   get_terraform_example self (Some ''aws'') = Inr terraform_example_aws"
proof -
  assume t: "sublist ''terraform'' (lower q)" and k: "sublist ''kubernetes'' (lower q)"
  have d: "dict_get terraform_examples None terraform_example_aws = terraform_example_aws"
    by (simp add: dict_get_def terraform_examples_def)
  have a: "dict_get terraform_examples (Some ''aws'') terraform_example_aws = terraform_example_aws"
    by (simp add: dict_get_def terraform_examples_def)
  show ?thesis
    by (simp add: suggest_solution_eq get_terraform_example_eq t k d a)
qed

theorem suggest_solution_both_keywords_witness:
  "sublist ''terraform'' (lower ''terraform and kubernetes'') \<and>
   sublist ''kubernetes'' (lower ''terraform and kubernetes'') \<and>
   suggest_solution HypervisorAgent_init ''terraform and kubernetes'' None =
     Inr \<lparr>query = ''terraform and kubernetes'', provider = None,
          recommendations =
            [''Use Terraform for infrastructure as code'',
             ''Consider managed Kubernetes services''],
          code_examples = [terraform_example_aws, k8s_example],
          best_practices = []\<rparr> \<and>
   sublist ''terraform'' (lower ''KUBERNETES before Terraform'') \<and>
   sublist ''kubernetes'' (lower ''KUBERNETES before Terraform'') \<and>
   suggest_solution HypervisorAgent_init ''KUBERNETES before Terraform'' None =
     Inr \<lparr>query = ''KUBERNETES before Terraform'', provider = None,
          recommendations =
            [''Use Terraform for infrastructure as code'',
             ''Consider managed Kubernetes services''],
          code_examples = [terraform_example_aws, k8s_example],
          best_practices = []\<rparr>"
proof -
  have t1: "sublist ''terraform'' (lower ''terraform and kubernetes'')"
    by (simp add: lower_def lower_char_simps char_of_def bit_Suc_0_iff sublist_Cons_right)
  have k1: "sublist ''kubernetes'' (lower ''terraform and kubernetes'')"
    by (simp add: lower_def lower_char_simps char_of_def bit_Suc_0_iff sublist_Cons_right)
  have t2: "sublist ''terraform'' (lower ''KUBERNETES before Terraform'')"
    by (simp add: lower_def lower_char_simps char_of_def bit_Suc_0_iff sublist_Cons_right)
  have k2: "sublist ''kubernetes'' (lower ''KUBERNETES before Terraform'')"
    by (simp add: lower_def lower_char_simps char_of_def bit_Suc_0_iff sublist_Cons_right)
  note r1 = suggest_solution_both_keywords [OF t1 k1, of HypervisorAgent_init, THEN conjunct1]
  note r2 = suggest_solution_both_keywords [OF t2 k2, of HypervisorAgent_init, THEN conjunct1]
  show ?thesis
    by (intro conjI) (rule t1, rule k1, rule r1, rule t2, rule k2, rule r2)
qed

text \<open>
  C7. For every query whose lower-cased text holds neither keyword, and every provider,
  \<open>suggest_solution\<close> succeeds and returns a result whose recommendations and snippets
  are both empty.
\<close>

theorem suggest_solution_no_keyword:
  "\<not> sublist ''terraform'' (lower q) \<Longrightarrow> \<not> sublist ''kubernetes'' (lower q) \<Longrightarrow>
   suggest_solution self q prov =
     Inr \<lparr>query = q, provider = prov, recommendations = [], code_examples = [],
          best_practices = []\<rparr>"
  by (simp add: suggest_solution_eq)

theorem suggest_solution_no_keyword_witness:
  "\<not> sublist ''terraform'' (lower ''no matching keywords here'') \<and>
   \<not> sublist ''kubernetes'' (lower ''no matching keywords here'') \<and>
   suggest_solution HypervisorAgent_init ''no matching keywords here'' (Some ''azure'') =
     Inr \<lparr>query = ''no matching keywords here'', provider = Some ''azure'',
          recommendations = [], code_examples = [], best_practices = []\<rparr>"
proof -
  have t: "\<not> sublist ''terraform'' (lower ''no matching keywords here'')"
    by (simp add: lower_def lower_char_simps char_of_def bit_Suc_0_iff sublist_Cons_right)
  have k: "\<not> sublist ''kubernetes'' (lower ''no matching keywords here'')"
    by (simp add: lower_def lower_char_simps char_of_def bit_Suc_0_iff sublist_Cons_right)
  from t k
    suggest_solution_no_keyword [OF t k, of HypervisorAgent_init "Some ''azure''"]
  show ?thesis by blast
qed

text \<open>
  C9. For every query and provider, \<open>suggest_solution\<close> returns a result in which the
  recommendations and the code examples each have one entry for each keyword matched:
  the two lists have the same length, the number of the keywords \<open>terraform\<close> and
  \<open>kubernetes\<close> that occur in the lower-cased query; its best practices are empty.
\<close>

theorem suggest_solution_lengths:
  "\<exists>r. suggest_solution self q prov = Inr r \<and>
       length (recommendations r) = length (matched q prov) \<and>
       length (code_examples r) = length (matched q prov) \<and>
       length (matched q prov) =
         length (filter (\<lambda>k. sublist k (lower q)) [''terraform'', ''kubernetes'']) \<and>
       best_practices r = []"
  by (simp add: suggest_solution_eq matched_def keyword_table_def)

theorem suggest_solution_lengths_witness:
  "(\<exists>r. suggest_solution HypervisorAgent_init ''Kubernetes, then Terraform'' (Some ''gcp'') = Inr r \<and>
        length (recommendations r) = 2 \<and> length (code_examples r) = 2 \<and>
        best_practices r = []) \<and>
   (\<exists>r. suggest_solution HypervisorAgent_init ''A Terraform module'' None = Inr r \<and>
        length (recommendations r) = 1 \<and> length (code_examples r) = 1 \<and>
        best_practices r = [])"
proof (rule conjI)
  have n: "length (filter (\<lambda>k. sublist k (lower ''Kubernetes, then Terraform''))
             [''terraform'', ''kubernetes'']) = 2"
    by (simp add: lower_def lower_char_simps char_of_def bit_Suc_0_iff sublist_Cons_right)
  from suggest_solution_lengths
         [of HypervisorAgent_init "''Kubernetes, then Terraform''" "Some ''gcp''"]
  obtain r where r: "suggest_solution HypervisorAgent_init ''Kubernetes, then Terraform''
                       (Some ''gcp'') = Inr r"
      "length (recommendations r) = length (matched ''Kubernetes, then Terraform'' (Some ''gcp''))"
      "length (code_examples r) = length (matched ''Kubernetes, then Terraform'' (Some ''gcp''))"
      "length (matched ''Kubernetes, then Terraform'' (Some ''gcp'')) =
         length (filter (\<lambda>k. sublist k (lower ''Kubernetes, then Terraform''))
           [''terraform'', ''kubernetes''])"
      "best_practices r = []"
    by (elim exE conjE)
  have "length (recommendations r) = 2" "length (code_examples r) = 2"
    by (simp_all only: r(2,3,4) n)
  with r(1,5)
  show "\<exists>r. suggest_solution HypervisorAgent_init ''Kubernetes, then Terraform'' (Some ''gcp'') = Inr r \<and>
        length (recommendations r) = 2 \<and> length (code_examples r) = 2 \<and>
        best_practices r = []"
    by (intro exI [of _ r] conjI)
next
  have n: "length (filter (\<lambda>k. sublist k (lower ''A Terraform module''))
             [''terraform'', ''kubernetes'']) = 1"
    by (simp add: lower_def lower_char_simps char_of_def bit_Suc_0_iff sublist_Cons_right)
  from suggest_solution_lengths [of HypervisorAgent_init "''A Terraform module''" None]
  obtain r where r: "suggest_solution HypervisorAgent_init ''A Terraform module'' None = Inr r"
      "length (recommendations r) = length (matched ''A Terraform module'' None)"
      "length (code_examples r) = length (matched ''A Terraform module'' None)"
      "length (matched ''A Terraform module'' None) =
         length (filter (\<lambda>k. sublist k (lower ''A Terraform module''))
           [''terraform'', ''kubernetes''])"
      "best_practices r = []"
    by (elim exE conjE)
  have "length (recommendations r) = 1" "length (code_examples r) = 1"
    by (simp_all only: r(2,3,4) n)
  with r(1,5)
  show "\<exists>r. suggest_solution HypervisorAgent_init ''A Terraform module'' None = Inr r \<and>
        length (recommendations r) = 1 \<and> length (code_examples r) = 1 \<and>
        best_practices r = []"
    by (intro exI [of _ r] conjI)
qed

text \<open>
  C10. For every provider argument other than \<open>aws\<close>, \<open>azure\<close> and \<open>gcp\<close>, \<open>None\<close>
  among them, \<open>_get_terraform_example\<close> returns the Terraform example of \<open>aws\<close>, and
  does not fail; \<open>_get_k8s_example\<close> returns the same text for every provider
  argument.
\<close>

theorem get_terraform_example_fallback:
  "(prov \<notin> {Some ''aws'', Some ''azure'', Some ''gcp''} \<longrightarrow>
      get_terraform_example self prov = Inr terraform_example_aws \<and>
      get_terraform_example self prov = get_terraform_example self (Some ''aws'')) \<and>
   get_k8s_example self prov = k8s_example \<and>
   get_k8s_example self prov = get_k8s_example self prov'"
  by (simp add: get_terraform_example_eq get_k8s_example_def dict_get_def
      terraform_examples_def)

theorem get_terraform_example_fallback_witness:
  "None \<notin> {Some ''aws'', Some ''azure'', Some ''gcp''} \<and>
   Some ''oracle'' \<notin> {Some ''aws'', Some ''azure'', Some ''gcp''} \<and>
   get_terraform_example HypervisorAgent_init None = Inr terraform_example_aws \<and>
   get_terraform_example HypervisorAgent_init (Some ''oracle'') = Inr terraform_example_aws \<and>
   get_k8s_example HypervisorAgent_init (Some ''oracle'') = k8s_example"
proof -
  have a: "None \<notin> {Some ''aws'', Some ''azure'', Some ''gcp''}" by simp
  have b: "Some ''oracle'' \<notin> {Some ''aws'', Some ''azure'', Some ''gcp''}" by simp
  show ?thesis
    using a b
      get_terraform_example_fallback [of None HypervisorAgent_init "Some ''aws''"]
      get_terraform_example_fallback [of "Some ''oracle''" HypervisorAgent_init "Some ''aws''"]
    by simp
qed


section \<open>The query handler\<close>

text \<open>
  C3 (as the code has it). The check of the query is in the request handler, not in the
  classifier. For a \<open>POST\<close> request whose field \<open>query\<close> is absent, empty or made of
  whitespace only, the handler \<open>query_agent\<close> returns the error message
  \<open>Please enter a query\<close> to \<open>jsonify\<close>: no result of the classifier, and no
  exception. The classifier \<open>suggest_solution\<close>, called with such a query, returns a
  result with no recommendation and no snippet.
\<close>

theorem query_agent_blank_query:
  "(request_method req = POST \<longrightarrow>
      (\<forall>c \<in> set (dict_get (form req) ''query'' ''''). isspace c) \<longrightarrow>
      query_agent ag req = Json_error ''Please enter a query'') \<and>
   ((\<forall>c \<in> set q. isspace c) \<longrightarrow>
      suggest_solution ag q prov =
        Inr \<lparr>query = q, provider = prov, recommendations = [], code_examples = [],
             best_practices = []\<rparr>)"
proof (intro conjI impI)
  assume "request_method req = POST"
    and "\<forall>c \<in> set (dict_get (form req) ''query'' ''''). isspace c"
  then show "query_agent ag req = Json_error ''Please enter a query''"
    by (simp add: query_agent_def Let_def strip_empty_iff)
next
  assume b: "\<forall>c \<in> set q. isspace c"
  have "\<not> sublist ''terraform'' (lower q)"
    using blank_no_letter [OF b, of "CHR ''t''" "''erraform''"] by (simp add: isspace_def)
  moreover have "\<not> sublist ''kubernetes'' (lower q)"
    using blank_no_letter [OF b, of "CHR ''k''" "''ubernetes''"] by (simp add: isspace_def)
  ultimately show "suggest_solution ag q prov =
        Inr \<lparr>query = q, provider = prov, recommendations = [], code_examples = [],
             best_practices = []\<rparr>"
    by (simp add: suggest_solution_eq)
qed

theorem query_agent_blank_query_witness:
  "isspace CHR '' '' \<and>
   query_agent HypervisorAgent_init
     \<lparr>request_method = POST, form = [''query'' \<mapsto> ''   '', ''provider'' \<mapsto> ''aws'']\<rparr> =
     Json_error ''Please enter a query'' \<and>
   query_agent HypervisorAgent_init \<lparr>request_method = POST, form = Map.empty\<rparr> =
     Json_error ''Please enter a query'' \<and>
   suggest_solution HypervisorAgent_init ''   '' (Some ''aws'') =
     Inr \<lparr>query = ''   '', provider = Some ''aws'', recommendations = [],
          code_examples = [], best_practices = []\<rparr>"
proof -
  have sp: "isspace CHR '' ''"
    by (simp add: isspace_def)
  have a: "query_agent HypervisorAgent_init
     \<lparr>request_method = POST, form = [''query'' \<mapsto> ''   '', ''provider'' \<mapsto> ''aws'']\<rparr> =
     Json_error ''Please enter a query''"
    by (rule query_agent_blank_query [THEN conjunct1, rule_format])
       (simp_all add: dict_get_def isspace_def)
  have b: "query_agent HypervisorAgent_init \<lparr>request_method = POST, form = Map.empty\<rparr> =
     Json_error ''Please enter a query''"
    by (rule query_agent_blank_query [THEN conjunct1, rule_format])
       (simp_all add: dict_get_def)
  have c: "suggest_solution HypervisorAgent_init ''   '' (Some ''aws'') =
     Inr \<lparr>query = ''   '', provider = Some ''aws'', recommendations = [],
          code_examples = [], best_practices = []\<rparr>"
    by (rule query_agent_blank_query [THEN conjunct2, rule_format])
       (simp add: isspace_def)
  show ?thesis
    by (intro conjI) (rule sp, rule a, rule b, rule c)
qed

text \<open>
  C3 as the specification words it fails: classifying the empty query, or a query of
  three blanks, yields a result of the classifier, with empty sequences, not a
  validation error; and the message of the handler for the query of three blanks is
  \<open>Please enter a query\<close>, not \<open>please enter a query\<close>.
\<close>

theorem query_agent_blank_query_counterexample:
  "suggest_solution HypervisorAgent_init '''' (Some ''aws'') =
     Inr \<lparr>query = '''', provider = Some ''aws'', recommendations = [],
          code_examples = [], best_practices = []\<rparr> \<and>
   suggest_solution HypervisorAgent_init ''   '' (Some ''aws'') =
     Inr \<lparr>query = ''   '', provider = Some ''aws'', recommendations = [],
          code_examples = [], best_practices = []\<rparr> \<and>
   query_agent HypervisorAgent_init
     \<lparr>request_method = POST, form = [''query'' \<mapsto> ''   '', ''provider'' \<mapsto> ''aws'']\<rparr> \<noteq>
   Json_error ''please enter a query''"
  by (simp add: suggest_solution_eq lower_blank sublist_Cons_right
      query_agent_def Let_def strip_empty_iff dict_get_def isspace_def)


section \<open>Repeated calls\<close>



end
